theory Spec2Isabelle
  imports Main
begin

section \<open>Python values and exceptions\<close>

text \<open>
  The values that flow through \<^verbatim>\<open>consulate/api/acl.py\<close> are the ones JSON can carry:
  \<^verbatim>\<open>None\<close>, booleans, integers, strings, lists and dictionaries with string keys.
  A dictionary is an association list in insertion order (Python keeps the order, and
  \<^verbatim>\<open>json.dumps\<close> writes the keys in it); a well-formed dictionary has no key twice.
  A string is a list of code points below 256. Floating point numbers are not modelled.
\<close>

datatype json =
    JNull
  | JBool bool
  | JInt int
  | JStr string
  | JList "json list"
  | JDict "(string \<times> json) list"

type_synonym pydict = "(string \<times> json) list"

text \<open>
  The exceptions an operation can end with: the ones of \<^verbatim>\<open>consulate.exceptions\<close> that the
  module raises or documents, a generic request failure of the transport, and Python's
  own \<^verbatim>\<open>KeyError\<close> and \<^verbatim>\<open>TypeError\<close>. Each carries the argument it was raised with.
\<close>

datatype error =
    Forbidden json
  | NotFound json
  | ACLPolicyFormatError string
  | RequestError int json
  | KeyError string
  | TypeError

text \<open>The exceptions that \<^verbatim>\<open>consulate.exceptions\<close> defines, as opposed to Python's built-in ones.\<close>

fun module_exception :: "error \<Rightarrow> bool" where
  "module_exception (KeyError k) = False"
| "module_exception TypeError = False"
| "module_exception e = True"

text \<open>\<^verbatim>\<open>key in d\<close> for a dictionary \<^verbatim>\<open>d\<close>.\<close>

definition py_in :: "string \<Rightarrow> pydict \<Rightarrow> bool" where
  "py_in k d = (k \<in> set (map fst d))"

text \<open>
  Python's truth value of an object, which \<^verbatim>\<open>not response\<close> negates: \<^verbatim>\<open>None\<close>, \<^verbatim>\<open>False\<close>,
  zero and every empty string, list and dictionary are false.
\<close>

fun truthy :: "json \<Rightarrow> bool" where
  "truthy JNull = False"
| "truthy (JBool b) = b"
| "truthy (JInt i) = (i \<noteq> 0)"
| "truthy (JStr s) = (s \<noteq> [])"
| "truthy (JList xs) = (xs \<noteq> [])"
| "truthy (JDict d) = (d \<noteq> [])"

text \<open>
  The subscription \<^verbatim>\<open>v[key]\<close> with a string key: a dictionary looks the key up and raises
  \<^verbatim>\<open>KeyError\<close> when it is missing; no other value of the model accepts a string subscript,
  and Python raises \<^verbatim>\<open>TypeError\<close>.
\<close>

fun py_getitem :: "json \<Rightarrow> string \<Rightarrow> error + json" where
  "py_getitem (JDict d) k = (case map_of d k of None \<Rightarrow> Inl (KeyError k) | Some v \<Rightarrow> Inr v)"
| "py_getitem v k = Inl TypeError"

section \<open>The JSON codec of the standard library\<close>

text \<open>
  \<^verbatim>\<open>__create_json_format\<close> calls \<^verbatim>\<open>json.dumps\<close>, and the round trip of its output is through
  \<^verbatim>\<open>json.loads\<close>. Both belong to Python's standard library; they are modelled after
  CPython's \<^verbatim>\<open>json.encoder\<close> and \<^verbatim>\<open>json.decoder\<close> with their default arguments, on the
  values of type \<open>json\<close>.
\<close>

subsection \<open>Encoding\<close>

text \<open>
  \<^verbatim>\<open>py_encode_basestring_ascii\<close> (\<^verbatim>\<open>ensure_ascii\<close> is true by default): the quote and the
  backslash get a backslash, five control characters have a short escape, every other
  character outside the range from space to tilde is written as a backslash, \<^verbatim>\<open>u\<close> and
  four lower-case hexadecimal digits.
\<close>

definition hexdigit :: "nat \<Rightarrow> char" where
  "hexdigit n = (if n < 10 then char_of (48 + n) else char_of (87 + n))"

definition escape_u :: "char \<Rightarrow> string" where
  "escape_u c =
     [CHR 0x5C, CHR ''u'', hexdigit (of_char c div 4096 mod 16),
      hexdigit (of_char c div 256 mod 16), hexdigit (of_char c div 16 mod 16),
      hexdigit (of_char c mod 16)]"

definition escape_char :: "char \<Rightarrow> string" where
  "escape_char c =
     (if c = CHR 0x22 then [CHR 0x5C, CHR 0x22]
      else if c = CHR 0x5C then [CHR 0x5C, CHR 0x5C]
      else if c = CHR 0x0A then [CHR 0x5C, CHR ''n'']
      else if c = CHR 0x0D then [CHR 0x5C, CHR ''r'']
      else if c = CHR 0x09 then [CHR 0x5C, CHR ''t'']
      else if c = CHR 0x08 then [CHR 0x5C, CHR ''b'']
      else if c = CHR 0x0C then [CHR 0x5C, CHR ''f'']
      else if (32::nat) \<le> of_char c \<and> of_char c \<le> (126::nat) then [c]
      else escape_u c)"

definition encode_basestring_ascii :: "string \<Rightarrow> string" where
  "encode_basestring_ascii s = CHR 0x22 # concat (map escape_char s) @ [CHR 0x22]"

text \<open>The decimal digits of an integer, as \<^verbatim>\<open>int.__repr__\<close> writes them.\<close>

definition digit_char :: "nat \<Rightarrow> char" where
  "digit_char d = char_of (48 + d)"

fun digits :: "nat \<Rightarrow> string" where
  "digits n = (if n < 10 then [digit_char n] else digits (n div 10) @ [digit_char (n mod 10)])"

declare digits.simps [simp del]

definition int_repr :: "int \<Rightarrow> string" where
  "int_repr i = (if i < 0 then CHR ''-'' # digits (nat (- i)) else digits (nat i))"

text \<open>
  \<^verbatim>\<open>json.dumps\<close>: the items of a list and of a dictionary are separated by a comma and a
  space, a key and its value by a colon and a space; the empty list is \<^verbatim>\<open>[]\<close> and the
  empty dictionary \<^verbatim>\<open>{}\<close>.
\<close>

fun json_dumps :: "json \<Rightarrow> string"
  and dumps_elems :: "json list \<Rightarrow> string"
  and dumps_members :: "pydict \<Rightarrow> string" where
  "json_dumps JNull = ''null''"
| "json_dumps (JBool b) = (if b then ''true'' else ''false'')"
| "json_dumps (JInt i) = int_repr i"
| "json_dumps (JStr s) = encode_basestring_ascii s"
| "json_dumps (JList xs) = ''['' @ dumps_elems xs @ '']''"
| "json_dumps (JDict d) = ''{'' @ dumps_members d @ ''}''"
| "dumps_elems [] = []"
| "dumps_elems [x] = json_dumps x"
| "dumps_elems (x # y # ys) = json_dumps x @ '', '' @ dumps_elems (y # ys)"
| "dumps_members [] = []"
| "dumps_members [(k, v)] = encode_basestring_ascii k @ '': '' @ json_dumps v"
| "dumps_members ((k, v) # kv # kvs) =
     encode_basestring_ascii k @ '': '' @ json_dumps v @ '', '' @ dumps_members (kv # kvs)"

subsection \<open>Decoding\<close>

text \<open>
  A decoding function returns the value and the rest of the input, or \<open>None\<close> where the
  decoder raises \<^verbatim>\<open>JSONDecodeError\<close>. \<open>None\<close> is also the answer for the documents the
  model has no value for: a number with a fraction or an exponent, \<^verbatim>\<open>NaN\<close>, \<^verbatim>\<open>Infinity\<close>,
  and a \<^verbatim>\<open>\uXXXX\<close> escape of a code point from 256 on.
\<close>

definition is_ws :: "char \<Rightarrow> bool" where
  "is_ws c = (c = CHR '' '' \<or> c = CHR 0x09 \<or> c = CHR 0x0A \<or> c = CHR 0x0D)"

definition skip_ws :: "string \<Rightarrow> string" where
  "skip_ws s = dropWhile is_ws s"

definition hexval :: "char \<Rightarrow> nat option" where
  "hexval c =
     (let n = of_char c :: nat in
      if 48 \<le> n \<and> n \<le> 57 then Some (n - 48)
      else if 97 \<le> n \<and> n \<le> 102 then Some (n - 87)
      else if 65 \<le> n \<and> n \<le> 70 then Some (n - 55)
      else None)"

definition decode_uXXXX :: "char \<Rightarrow> char \<Rightarrow> char \<Rightarrow> char \<Rightarrow> char option" where
  "decode_uXXXX h1 h2 h3 h4 =
     (case (hexval h1, hexval h2, hexval h3, hexval h4) of
        (Some a, Some b, Some c, Some d) \<Rightarrow>
          (let n = ((a * 16 + b) * 16 + c) * 16 + d in
           if n < 256 then Some (char_of n) else None)
      | _ \<Rightarrow> None)"

text \<open>The table \<^verbatim>\<open>BACKSLASH\<close> of the decoder.\<close>

definition unescape :: "char \<Rightarrow> char option" where
  "unescape e =
     (if e = CHR 0x22 then Some (CHR 0x22)
      else if e = CHR 0x5C then Some (CHR 0x5C)
      else if e = CHR ''/'' then Some (CHR ''/'')
      else if e = CHR ''b'' then Some (CHR 0x08)
      else if e = CHR ''f'' then Some (CHR 0x0C)
      else if e = CHR ''n'' then Some (CHR 0x0A)
      else if e = CHR ''r'' then Some (CHR 0x0D)
      else if e = CHR ''t'' then Some (CHR 0x09)
      else None)"

definition prepend :: "char \<Rightarrow> (string \<times> string) option \<Rightarrow> (string \<times> string) option" where
  "prepend c r = (case r of None \<Rightarrow> None | Some (s, rest) \<Rightarrow> Some (c # s, rest))"

text \<open>
  \<^verbatim>\<open>scanstring\<close>, from the character after the opening quote to the closing quote. In
  strict mode, the default, a control character inside the string is an error.
\<close>

fun scanstring :: "string \<Rightarrow> (string \<times> string) option" where
  "scanstring [] = None"
| "scanstring (c # cs) =
     (if c = CHR 0x22 then Some ([], cs)
      else if c = CHR 0x5C then
        (case cs of
           [] \<Rightarrow> None
         | e # cs1 \<Rightarrow>
             if e = CHR ''u'' then
               (case cs1 of
                  h1 # h2 # h3 # h4 # cs2 \<Rightarrow>
                    (case decode_uXXXX h1 h2 h3 h4 of
                       None \<Rightarrow> None
                     | Some ch \<Rightarrow> prepend ch (scanstring cs2))
                | _ \<Rightarrow> None)
             else
               (case unescape e of
                  None \<Rightarrow> None
                | Some ch \<Rightarrow> prepend ch (scanstring cs1)))
      else if of_char c < (32::nat) then None
      else prepend c (scanstring cs))"

text \<open>
  The integer part of \<^verbatim>\<open>NUMBER_RE\<close>: a single zero, or a digit other than zero and any
  digits after it. A point or an exponent after it starts a fraction, which has no value
  in the model, or is an error in every place a value can stand.
\<close>

definition is_digit :: "char \<Rightarrow> bool" where
  "is_digit c = ((48::nat) \<le> of_char c \<and> of_char c \<le> (57::nat))"

fun scan_digits :: "nat \<Rightarrow> string \<Rightarrow> nat \<times> string" where
  "scan_digits acc [] = (acc, [])"
| "scan_digits acc (c # cs) =
     (if is_digit c then scan_digits (acc * 10 + (of_char c - 48)) cs else (acc, c # cs))"

definition float_follows :: "string \<Rightarrow> bool" where
  "float_follows s =
     (case s of [] \<Rightarrow> False | c # cs \<Rightarrow> c = CHR ''.'' \<or> c = CHR ''e'' \<or> c = CHR ''E'')"

definition scan_nat :: "string \<Rightarrow> (nat \<times> string) option" where
  "scan_nat s =
     (case s of
        [] \<Rightarrow> None
      | c # cs \<Rightarrow>
          if c = CHR ''0'' then (if float_follows cs then None else Some (0, cs))
          else if is_digit c then
            (case scan_digits 0 (c # cs) of (n, rest) \<Rightarrow>
               if float_follows rest then None else Some (n, rest))
          else None)"

text \<open>
  \<^verbatim>\<open>dict(pairs)\<close> at the end of \<^verbatim>\<open>JSONObject\<close>: a key that comes again keeps its place and
  takes the later value.
\<close>

fun dict_set :: "string \<Rightarrow> json \<Rightarrow> pydict \<Rightarrow> pydict" where
  "dict_set k v [] = [(k, v)]"
| "dict_set k v ((k', v') # d) = (if k' = k then (k, v) # d else (k', v') # dict_set k v d)"

definition dict_of_pairs :: "(string \<times> json) list \<Rightarrow> pydict" where
  "dict_of_pairs pairs = foldl (\<lambda>d (k, v). dict_set k v d) [] pairs"

text \<open>
  \<^verbatim>\<open>scan_once\<close>, \<^verbatim>\<open>JSONArray\<close> and \<^verbatim>\<open>JSONObject\<close> call each other; the recursion is on a
  counter that bounds the depth of the calls and that \<open>json_loads\<close> starts at the length
  of the document. With the counter at zero the answer is \<open>None\<close>; \<open>decode_encoded\<close>
  below shows that the length is enough for every document \<open>json_dumps\<close> writes.
  \<open>JSONArray\<close> and \<open>JSONObject\<close> start at the first item, after \<open>scan_once\<close> has dealt
  with the empty list and the empty dictionary.
\<close>

fun scan_once :: "nat \<Rightarrow> string \<Rightarrow> (json \<times> string) option"
  and JSONArray :: "nat \<Rightarrow> string \<Rightarrow> (json list \<times> string) option"
  and JSONObject :: "nat \<Rightarrow> string \<Rightarrow> ((string \<times> json) list \<times> string) option" where
  "scan_once 0 s = None"
| "scan_once (Suc n) [] = None"
| "scan_once (Suc n) (c # cs) =
     (if c = CHR 0x22 then
        (case scanstring cs of None \<Rightarrow> None | Some (str, rest) \<Rightarrow> Some (JStr str, rest))
      else if c = CHR ''{'' then
        (case skip_ws cs of
           [] \<Rightarrow> None
         | c1 # cs1 \<Rightarrow>
             if c1 = CHR ''}'' then Some (JDict [], cs1)
             else (case JSONObject n (c1 # cs1) of
                     None \<Rightarrow> None
                   | Some (pairs, rest) \<Rightarrow> Some (JDict (dict_of_pairs pairs), rest)))
      else if c = CHR ''['' then
        (case skip_ws cs of
           [] \<Rightarrow> None
         | c1 # cs1 \<Rightarrow>
             if c1 = CHR '']'' then Some (JList [], cs1)
             else (case JSONArray n (c1 # cs1) of
                     None \<Rightarrow> None
                   | Some (values, rest) \<Rightarrow> Some (JList values, rest)))
      else if c = CHR ''n'' \<and> take 3 cs = ''ull'' then Some (JNull, drop 3 cs)
      else if c = CHR ''t'' \<and> take 3 cs = ''rue'' then Some (JBool True, drop 3 cs)
      else if c = CHR ''f'' \<and> take 4 cs = ''alse'' then Some (JBool False, drop 4 cs)
      else if c = CHR ''-'' then
        (case scan_nat cs of None \<Rightarrow> None | Some (m, rest) \<Rightarrow> Some (JInt (- int m), rest))
      else
        (case scan_nat (c # cs) of None \<Rightarrow> None | Some (m, rest) \<Rightarrow> Some (JInt (int m), rest)))"
| "JSONArray 0 s = None"
| "JSONArray (Suc n) s =
     (case scan_once n s of
        None \<Rightarrow> None
      | Some (v, rest) \<Rightarrow>
          (case skip_ws rest of
             [] \<Rightarrow> None
           | c # cs \<Rightarrow>
               if c = CHR '']'' then Some ([v], cs)
               else if c = CHR '','' then
                 (case JSONArray n (skip_ws cs) of
                    None \<Rightarrow> None
                  | Some (vs, rest') \<Rightarrow> Some (v # vs, rest'))
               else None))"
| "JSONObject 0 s = None"
| "JSONObject (Suc n) [] = None"
| "JSONObject (Suc n) (q # s) =
     (if q \<noteq> CHR 0x22 then None
      else
        (case scanstring s of
           None \<Rightarrow> None
         | Some (key, rest) \<Rightarrow>
             (case skip_ws rest of
                [] \<Rightarrow> None
              | c # cs \<Rightarrow>
                  if c \<noteq> CHR '':'' then None
                  else
                    (case scan_once n (skip_ws cs) of
                       None \<Rightarrow> None
                     | Some (v, rest1) \<Rightarrow>
                         (case skip_ws rest1 of
                            [] \<Rightarrow> None
                          | c2 # cs2 \<Rightarrow>
                              if c2 = CHR ''}'' then Some ([(key, v)], cs2)
                              else if c2 = CHR '','' then
                                (case JSONObject n (skip_ws cs2) of
                                   None \<Rightarrow> None
                                 | Some (pairs, rest2) \<Rightarrow> Some ((key, v) # pairs, rest2))
                              else None)))))"

text \<open>
  \<^verbatim>\<open>json.loads\<close>: white space, one value, white space, and then the end of the document.
\<close>

definition json_loads :: "string \<Rightarrow> json option" where
  "json_loads s =
     (case scan_once (length s) (skip_ws s) of
        None \<Rightarrow> None
      | Some (v, rest) \<Rightarrow> if skip_ws rest = [] then Some v else None)"

section \<open>Input validators\<close>

text \<open>
  \<^verbatim>\<open>__check_policylinks\<close> and \<^verbatim>\<open>__check_service_identities\<close>. The loop over the list is
  the recursion; the \<^verbatim>\<open>raise\<close> inside the loop ends it at the first offending element.
  The message of the exception is \<^verbatim>\<open>str(policy)\<close>: Python's rendering of a dictionary is
  the parameter \<open>py_str\<close>.
\<close>

fun check_policylinks :: "(pydict \<Rightarrow> string) \<Rightarrow> pydict list \<Rightarrow> error + bool" where
  "check_policylinks py_str [] = Inr True"
| "check_policylinks py_str (policy # policies) =
     (if \<not> (py_in ''ID'' policy \<or> py_in ''Name'' policy)
      then Inl (ACLPolicyFormatError (py_str policy))
      else check_policylinks py_str policies)"

fun check_service_identities :: "(pydict \<Rightarrow> string) \<Rightarrow> pydict list \<Rightarrow> error + bool" where
  "check_service_identities py_str [] = Inr True"
| "check_service_identities py_str (service_identity # service_identities) =
     (if \<not> py_in ''ServiceName'' service_identity
      then Inl (ACLPolicyFormatError (py_str service_identity))
      else check_service_identities py_str service_identities)"

section \<open>Payload formatter\<close>

text \<open>
  \<^verbatim>\<open>__create_json_format(structures, check)\<close>. The argument \<open>check\<close> is any Python
  function: a call of it takes the state of the world and returns the truth value it
  answers, or the exception it raises, and the state after the call. Python's \<^verbatim>\<open>and\<close>
  calls \<open>check\<close> only when \<open>structures\<close> is not \<^verbatim>\<open>None\<close>.
\<close>

definition create_json_format ::
  "pydict list option \<Rightarrow> (pydict list \<Rightarrow> 's \<Rightarrow> (error + bool) \<times> 's) \<Rightarrow> 's \<Rightarrow>
   (error + string option) \<times> 's" where
  "create_json_format structures check s =
     (case structures of
        None \<Rightarrow> (Inr None, s)
      | Some xs \<Rightarrow>
          (case check xs s of
             (Inl e, s') \<Rightarrow> (Inl e, s')
           | (Inr ok, s') \<Rightarrow>
               if ok then (Inr (Some (json_dumps (JList (map JDict xs)))), s')
               else (Inr None, s')))"

text \<open>A function without effects, such as the two validators, as an argument for \<open>check\<close>.\<close>

definition pure_call :: "('a \<Rightarrow> 'b) \<Rightarrow> 'a \<Rightarrow> 's \<Rightarrow> 'b \<times> 's" where
  "pure_call f x s = (f x, s)"

section \<open>The endpoint and its collaborators\<close>

text \<open>
  \<^verbatim>\<open>ACL\<close> extends \<^verbatim>\<open>base.Endpoint\<close>, whose helpers and whose HTTP adapter are not part of
  this module. They are the fields of the record below, each a function on the state
  \<open>'s\<close> of the world outside (the remote service, the connection): a call takes the state
  and returns the value or the exception it ends with, and the state after it.
  \<^item> \<open>ep_get params raise_on_404\<close> is \<^verbatim>\<open>self._get(params, raise_on_404=...)\<close>, with
    \<open>None\<close> when the call leaves the keyword out;
  \<^item> \<open>ep_put_response_body url_parts query payload\<close> is \<^verbatim>\<open>self._put_response_body(...)\<close>,
    with \<open>None\<close> for an argument left out;
  \<^item> \<open>ep_delete params\<close> is \<^verbatim>\<open>self._delete(params)\<close>;
  \<^item> \<open>adapter_put uri\<close> is \<^verbatim>\<open>self._adapter.put(uri)\<close>;
  \<^item> \<open>build_uri params\<close> is \<^verbatim>\<open>self._build_uri(params)\<close>.
\<close>

record response =
  status_code :: int
  body :: json

record 's endpoint =
  ep_get :: "string list \<Rightarrow> bool option \<Rightarrow> 's \<Rightarrow> (error + json) \<times> 's"
  ep_put_response_body ::
    "string list \<Rightarrow> pydict option \<Rightarrow> pydict option \<Rightarrow> 's \<Rightarrow> (error + json) \<times> 's"
  ep_delete :: "string list \<Rightarrow> 's \<Rightarrow> (error + json) \<times> 's"
  adapter_put :: "string \<Rightarrow> 's \<Rightarrow> (error + response) \<times> 's"
  build_uri :: "string list \<Rightarrow> string"

text \<open>\<^verbatim>\<open>expr['ID']\<close> applied to the outcome of a call: an exception of the call passes through.\<close>

definition subscript_ID :: "(error + json) \<times> 's \<Rightarrow> (error + json) \<times> 's" where
  "subscript_ID r =
     (case r of
        (Inl e, s') \<Rightarrow> (Inl e, s')
      | (Inr v, s') \<Rightarrow> (py_getitem v ''ID'', s'))"

section \<open>Request models\<close>

text \<open>
  Modelled from the spec: the classes \<^verbatim>\<open>ACLPolicy\<close> and \<^verbatim>\<open>ACL\<close> of \<^verbatim>\<open>consulate.models.acl\<close>
  and their conversion \<^verbatim>\<open>dict(model)\<close>, which this module imports and does not define.
  The spec gives each model its fields, says which are optional, gives the key of each
  field on the wire, and says that the conversion to a key-value mapping leaves out
  every field the caller left unset. A field left unset is \<open>None\<close>, as it is in the
  keyword arguments of the callers. The spec gives the models no validation.
\<close>

record ACLPolicy =
  policy_name :: string
  policy_datacenters :: "string list option"
  policy_description :: "string option"
  policy_rules :: "string option"
  policy_policies :: "pydict list option"
  policy_service_identities :: "pydict list option"

record ACLToken =
  token_id :: "string option"
  token_name :: "string option"
  token_type :: string
  token_rules :: "string option"

fun emit :: "string \<Rightarrow> json option \<Rightarrow> pydict" where
  "emit key None = []"
| "emit key (Some v) = [(key, v)]"

definition ACLPolicy_dict :: "ACLPolicy \<Rightarrow> pydict" where
  "ACLPolicy_dict m =
     [(''Name'', JStr (policy_name m))]
     @ emit ''Datacenters'' (map_option (\<lambda>ds. JList (map JStr ds)) (policy_datacenters m))
     @ emit ''Description'' (map_option JStr (policy_description m))
     @ emit ''Rules'' (map_option JStr (policy_rules m))
     @ emit ''Policies'' (map_option (\<lambda>ps. JList (map JDict ps)) (policy_policies m))
     @ emit ''ServiceIdentities''
         (map_option (\<lambda>ps. JList (map JDict ps)) (policy_service_identities m))"

definition ACLToken_dict :: "ACLToken \<Rightarrow> pydict" where
  "ACLToken_dict m =
     emit ''ID'' (map_option JStr (token_id m))
     @ emit ''Name'' (map_option JStr (token_name m))
     @ [(''Type'', JStr (token_type m))]
     @ emit ''Rules'' (map_option JStr (token_rules m))"

subsection \<open>Policies and roles\<close>

definition read_self_token :: "'s endpoint \<Rightarrow> 's \<Rightarrow> (error + json) \<times> 's" where
  "read_self_token self s = ep_get self [''token'', ''self''] None s"

definition list_policies :: "'s endpoint \<Rightarrow> 's \<Rightarrow> (error + json) \<times> 's" where
  "list_policies self s = ep_get self [''policies''] None s"

definition read_policy :: "'s endpoint \<Rightarrow> string \<Rightarrow> 's \<Rightarrow> (error + json) \<times> 's" where
  "read_policy self ident s = ep_get self [''policy'', ident] None s"

definition create_policy ::
  "'s endpoint \<Rightarrow> string \<Rightarrow> string list option \<Rightarrow> string option \<Rightarrow> string option \<Rightarrow>
   's \<Rightarrow> (error + json) \<times> 's" where
  "create_policy self name datacenters description rules s =
     ep_put_response_body self [''policy''] (Some [])
       (Some (ACLPolicy_dict
          \<lparr>policy_name = name, policy_datacenters = datacenters,
           policy_description = description, policy_rules = rules,
           policy_policies = None, policy_service_identities = None\<rparr>)) s"

definition update_policy ::
  "'s endpoint \<Rightarrow> string \<Rightarrow> string \<Rightarrow> string list option \<Rightarrow> string option \<Rightarrow>
   string option \<Rightarrow> 's \<Rightarrow> (error + json) \<times> 's" where
  "update_policy self ident name datacenters description rules s =
     ep_put_response_body self [''policy'', ident] (Some [])
       (Some (ACLPolicy_dict
          \<lparr>policy_name = name, policy_datacenters = datacenters,
           policy_description = description, policy_rules = rules,
           policy_policies = None, policy_service_identities = None\<rparr>)) s"

definition delete_policy :: "'s endpoint \<Rightarrow> string \<Rightarrow> 's \<Rightarrow> (error + json) \<times> 's" where
  "delete_policy self ident s = ep_delete self [''policy'', ident] s"

definition list_roles :: "'s endpoint \<Rightarrow> 's \<Rightarrow> (error + json) \<times> 's" where
  "list_roles self s = ep_get self [''roles''] None s"

text \<open>
  \<^verbatim>\<open>create_role\<close> hands \<open>policies\<close> and \<open>service_identities\<close> to the model as they come:
  its body calls neither validator and not the payload formatter.
\<close>

definition create_role ::
  "'s endpoint \<Rightarrow> string \<Rightarrow> string option \<Rightarrow> pydict list option \<Rightarrow> pydict list option \<Rightarrow>
   's \<Rightarrow> (error + json) \<times> 's" where
  "create_role self name description policies service_identities s =
     ep_put_response_body self [''role''] (Some [])
       (Some (ACLPolicy_dict
          \<lparr>policy_name = name, policy_datacenters = None,
           policy_description = description, policy_rules = None,
           policy_policies = policies,
           policy_service_identities = service_identities\<rparr>)) s"

subsection \<open>Legacy token operations\<close>

definition bootstrap :: "'s endpoint \<Rightarrow> 's \<Rightarrow> (error + json) \<times> 's" where
  "bootstrap self s = subscript_ID (ep_put_response_body self [''bootstrap''] None None s)"

definition clone :: "'s endpoint \<Rightarrow> string \<Rightarrow> 's \<Rightarrow> (error + json) \<times> 's" where
  "clone self acl_id s =
     subscript_ID (ep_put_response_body self [''clone'', acl_id] None None s)"

definition create ::
  "'s endpoint \<Rightarrow> string \<Rightarrow> string \<Rightarrow> string option \<Rightarrow> 's \<Rightarrow> (error + json) \<times> 's" where
  "create self name acl_type rules s =
     subscript_ID (ep_put_response_body self [''create''] (Some [])
       (Some (ACLToken_dict
          \<lparr>token_id = None, token_name = Some name, token_type = acl_type,
           token_rules = rules\<rparr>)) s)"

definition update ::
  "'s endpoint \<Rightarrow> string \<Rightarrow> string \<Rightarrow> string \<Rightarrow> string option \<Rightarrow> 's \<Rightarrow>
   (error + json) \<times> 's" where
  "update self acl_id name acl_type rules s =
     subscript_ID (ep_put_response_body self [''update''] (Some [])
       (Some (ACLToken_dict
          \<lparr>token_id = Some acl_id, token_name = Some name, token_type = acl_type,
           token_rules = rules\<rparr>)) s)"

definition destroy :: "'s endpoint \<Rightarrow> string \<Rightarrow> 's \<Rightarrow> (error + bool) \<times> 's" where
  "destroy self acl_id s =
     (case adapter_put self (build_uri self [''destroy'', acl_id]) s of
        (Inl e, s') \<Rightarrow> (Inl e, s')
      | (Inr resp, s') \<Rightarrow>
          if status_code resp = 403 then (Inl (Forbidden (body resp)), s')
          else (Inr (status_code resp = 200), s'))"

definition info :: "'s endpoint \<Rightarrow> string \<Rightarrow> 's \<Rightarrow> (error + json) \<times> 's" where
  "info self acl_id s =
     (case ep_get self [''info'', acl_id] (Some True) s of
        (Inl e, s') \<Rightarrow> (Inl e, s')
      | (Inr resp, s') \<Rightarrow>
          if \<not> truthy resp then (Inl (NotFound (JStr ''ACL not found'')), s')
          else (Inr resp, s'))"

definition list_acls :: "'s endpoint \<Rightarrow> 's \<Rightarrow> (error + json) \<times> 's" where
  "list_acls self s = ep_get self [''list''] None s"

definition replication :: "'s endpoint \<Rightarrow> 's \<Rightarrow> (error + json) \<times> 's" where
  "replication self s = ep_get self [''replication''] None s"

section \<open>A recording transport\<close>

text \<open>
  For the examples: a transport whose state is the list of the requests issued so far.
  Every helper appends its request and ends with the outcome fixed beforehand.
\<close>

datatype request =
    GET "string list" "bool option"
  | PUT "string list" "pydict option"
  | DELETE "string list"
  | ADAPTER_PUT string

definition recording :: "(error + json) \<Rightarrow> (error + response) \<Rightarrow> request list endpoint" where
  "recording outcome resp =
     \<lparr>ep_get = (\<lambda>params raise_on_404 s. (outcome, s @ [GET params raise_on_404])),
      ep_put_response_body = (\<lambda>url_parts query payload s. (outcome, s @ [PUT url_parts payload])),
      ep_delete = (\<lambda>params s. (outcome, s @ [DELETE params])),
      adapter_put = (\<lambda>uri s. (resp, s @ [ADAPTER_PUT uri])),
      build_uri = (\<lambda>params. concat (map (\<lambda>p. CHR ''/'' # p) params))\<rparr>"

section \<open>Predicates of the statements\<close>

text \<open>
  The bodies that are absent or empty, and the scalars, which are neither a record nor
  empty.
\<close>

fun empty_or_absent :: "json \<Rightarrow> bool" where
  "empty_or_absent JNull = True"
| "empty_or_absent (JStr s) = (s = [])"
| "empty_or_absent (JList xs) = (xs = [])"
| "empty_or_absent (JDict d) = (d = [])"
| "empty_or_absent v = False"

fun scalar :: "json \<Rightarrow> bool" where
  "scalar (JBool b) = True"
| "scalar (JInt i) = True"
| "scalar v = False"




section \<open>Properties\<close>

subsection \<open>Decoding what the encoder writes\<close>












































text \<open>
  The codec on documents written out: the separators of the encoder, white space and
  negative numbers in the decoder, three documents the decoder refuses, and a key that
  comes twice.
\<close>

lemma dumps_example:
  "json_dumps (JList [JDict [(''Name'', JStr ''svc-read''), (''n'', JInt (- 120))], JNull])
     = ''[{'' @ CHR 0x22 # ''Name'' @ CHR 0x22 # '': '' @ CHR 0x22 # ''svc-read'' @ CHR 0x22 #
       '', '' @ CHR 0x22 # ''n'' @ CHR 0x22 # '': -120}, null]''"
  by code_simp

lemma loads_example:
  "json_loads ''[ {} , [1, -20] ,null ]''
     = Some (JList [JDict [], JList [JInt 1, JInt (- 20)], JNull])"
  by code_simp

lemma loads_errors:
  "json_loads ''[1,]'' = None" "json_loads ''[01]'' = None" "json_loads ''{} x'' = None"
  by code_simp+

lemma loads_last_key_wins:
  "json_loads (''{'' @ CHR 0x22 # ''a'' @ CHR 0x22 # '': 1, '' @ CHR 0x22 # ''b'' @ CHR 0x22 #
      '': 2, '' @ CHR 0x22 # ''a'' @ CHR 0x22 # '': 3}'')
     = Some (JDict [(''a'', JInt 3), (''b'', JInt 2)])"
  by code_simp

subsection \<open>Destroying a token\<close>

text \<open>
  C1. Whatever response the adapter returns for the PUT on \<^verbatim>\<open>destroy/{id}\<close>: with status 403
  the operation raises \<^verbatim>\<open>Forbidden\<close> with the body of the response; with any other status
  it raises nothing and returns whether the status is 200.
\<close>

theorem destroy_status:
  assumes "adapter_put self (build_uri self [''destroy'', acl_id]) s = (Inr resp, s')"
  shows "(status_code resp = 403 \<longrightarrow> destroy self acl_id s = (Inl (Forbidden (body resp)), s'))
       \<and> (status_code resp \<noteq> 403 \<longrightarrow>
            destroy self acl_id s = (Inr (status_code resp = 200), s'))
       \<and> (status_code resp = 200 \<longrightarrow> destroy self acl_id s = (Inr True, s'))
       \<and> (status_code resp \<noteq> 403 \<and> status_code resp \<noteq> 200 \<longrightarrow>
            destroy self acl_id s = (Inr False, s'))"
  using assms by (simp add: destroy_def)

theorem destroy_status_witness:
  "destroy (recording (Inr JNull) (Inr \<lparr>status_code = 403, body = JStr ''denied''\<rparr>)) ''t1'' []
     = (Inl (Forbidden (JStr ''denied'')), [ADAPTER_PUT ''/destroy/t1''])
   \<and> destroy (recording (Inr JNull) (Inr \<lparr>status_code = 200, body = JBool True\<rparr>)) ''t1'' []
     = (Inr True, [ADAPTER_PUT ''/destroy/t1''])
   \<and> destroy (recording (Inr JNull) (Inr \<lparr>status_code = 500, body = JStr ''failed''\<rparr>)) ''t1'' []
     = (Inr False, [ADAPTER_PUT ''/destroy/t1''])"
  using
    destroy_status [of "recording (Inr JNull) (Inr \<lparr>status_code = 403, body = JStr ''denied''\<rparr>)"
      "''t1''" "[]" "\<lparr>status_code = 403, body = JStr ''denied''\<rparr>" "[ADAPTER_PUT ''/destroy/t1'']"]
    destroy_status [of "recording (Inr JNull) (Inr \<lparr>status_code = 200, body = JBool True\<rparr>)"
      "''t1''" "[]" "\<lparr>status_code = 200, body = JBool True\<rparr>" "[ADAPTER_PUT ''/destroy/t1'']"]
    destroy_status [of "recording (Inr JNull) (Inr \<lparr>status_code = 500, body = JStr ''failed''\<rparr>)"
      "''t1''" "[]" "\<lparr>status_code = 500, body = JStr ''failed''\<rparr>" "[ADAPTER_PUT ''/destroy/t1'']"]
  by (simp add: recording_def)

subsection \<open>Reading a token\<close>

lemma truthy_record: "\<not> scalar v \<Longrightarrow> truthy v = (\<not> empty_or_absent v)"
  by (cases v) simp_all

text \<open>
  C2. For every ACL id, when the GET on \<^verbatim>\<open>info/{id}\<close> (issued with \<^verbatim>\<open>raise_on_404\<close>) succeeds:
  if its body is absent or empty (\<^verbatim>\<open>None\<close>, an empty dictionary, list or string) the
  operation raises \<^verbatim>\<open>NotFound\<close>; if it is any other dictionary, list or string the operation
  returns it as it is. The test in the code is Python's truth value of the body.
\<close>

theorem info_not_found:
  assumes "ep_get self [''info'', acl_id] (Some True) s = (Inr resp, s')"
  shows "(empty_or_absent resp \<longrightarrow>
            info self acl_id s = (Inl (NotFound (JStr ''ACL not found'')), s'))
       \<and> (\<not> empty_or_absent resp \<and> \<not> scalar resp \<longrightarrow> info self acl_id s = (Inr resp, s'))
       \<and> info self acl_id s =
           (if truthy resp then (Inr resp, s') else (Inl (NotFound (JStr ''ACL not found'')), s'))"
proof -
  have run: "info self acl_id s =
      (if truthy resp then (Inr resp, s') else (Inl (NotFound (JStr ''ACL not found'')), s'))"
    using assms by (simp add: info_def)
  have "empty_or_absent resp \<Longrightarrow> \<not> truthy resp"
    by (cases resp) simp_all
  moreover have "\<not> empty_or_absent resp \<Longrightarrow> \<not> scalar resp \<Longrightarrow> truthy resp"
    by (simp add: truthy_record)
  ultimately show ?thesis
    using run by auto
qed

theorem info_not_found_witness:
  "info (recording (Inr (JDict [])) (Inl TypeError)) ''t1'' []
     = (Inl (NotFound (JStr ''ACL not found'')), [GET [''info'', ''t1''] (Some True)])
   \<and> info (recording (Inr (JDict [(''ID'', JStr ''t1'')])) (Inl TypeError)) ''t1'' []
     = (Inr (JDict [(''ID'', JStr ''t1'')]), [GET [''info'', ''t1''] (Some True)])"
  using
    info_not_found [of "recording (Inr (JDict [])) (Inl TypeError)" "''t1''" "[]"
      "JDict []" "[GET [''info'', ''t1''] (Some True)]"]
    info_not_found [of "recording (Inr (JDict [(''ID'', JStr ''t1'')])) (Inl TypeError)" "''t1''" "[]"
      "JDict [(''ID'', JStr ''t1'')]" "[GET [''info'', ''t1''] (Some True)]"]
  by (simp add: recording_def)

subsection \<open>The validators\<close>

lemma check_policylinks_all:
  "\<forall>p \<in> set policies. py_in ''ID'' p \<or> py_in ''Name'' p \<Longrightarrow>
   check_policylinks py_str policies = Inr True"
  by (induction policies) simp_all

lemma check_policylinks_first:
  "\<forall>q \<in> set pre. py_in ''ID'' q \<or> py_in ''Name'' q \<Longrightarrow>
   \<not> (py_in ''ID'' p \<or> py_in ''Name'' p) \<Longrightarrow>
   check_policylinks py_str (pre @ p # post) = Inl (ACLPolicyFormatError (py_str p))"
  by (induction pre) simp_all

text \<open>
  C3. If some element of the list has neither an \<^verbatim>\<open>ID\<close> nor a \<^verbatim>\<open>Name\<close> key, validation raises
  \<^verbatim>\<open>ACLPolicyFormatError\<close> with the representation of such an element (the first one of
  the list); if every element has one of the keys, and so for the empty list, it
  returns true.
\<close>

theorem check_policylinks_spec:
  "((\<exists>p \<in> set policies. \<not> (py_in ''ID'' p \<or> py_in ''Name'' p)) \<longrightarrow>
      (\<exists>pre p post. policies = pre @ p # post
         \<and> (\<forall>q \<in> set pre. py_in ''ID'' q \<or> py_in ''Name'' q)
         \<and> \<not> (py_in ''ID'' p \<or> py_in ''Name'' p)
         \<and> check_policylinks py_str policies = Inl (ACLPolicyFormatError (py_str p))))
   \<and> ((\<forall>p \<in> set policies. py_in ''ID'' p \<or> py_in ''Name'' p) \<longrightarrow>
      check_policylinks py_str policies = Inr True)
   \<and> check_policylinks py_str [] = Inr True"
proof (intro conjI impI)
  assume "\<exists>p \<in> set policies. \<not> (py_in ''ID'' p \<or> py_in ''Name'' p)"
  then obtain pre p post where split: "policies = pre @ p # post"
      and bad: "\<not> (py_in ''ID'' p \<or> py_in ''Name'' p)"
      and good: "\<forall>q \<in> set pre. \<not> \<not> (py_in ''ID'' q \<or> py_in ''Name'' q)"
    using split_list_first_prop [of policies "\<lambda>p. \<not> (py_in ''ID'' p \<or> py_in ''Name'' p)"]
    by blast
  from good have good': "\<forall>q \<in> set pre. py_in ''ID'' q \<or> py_in ''Name'' q"
    by simp
  have "check_policylinks py_str policies = Inl (ACLPolicyFormatError (py_str p))"
    unfolding split using good' bad by (rule check_policylinks_first)
  with split good' bad
  show "\<exists>pre p post. policies = pre @ p # post
         \<and> (\<forall>q \<in> set pre. py_in ''ID'' q \<or> py_in ''Name'' q)
         \<and> \<not> (py_in ''ID'' p \<or> py_in ''Name'' p)
         \<and> check_policylinks py_str policies = Inl (ACLPolicyFormatError (py_str p))"
    by blast
next
  assume "\<forall>p \<in> set policies. py_in ''ID'' p \<or> py_in ''Name'' p"
  then show "check_policylinks py_str policies = Inr True"
    by (rule check_policylinks_all)
next
  show "check_policylinks py_str [] = Inr True"
    by simp
qed

theorem check_policylinks_spec_witness:
  "check_policylinks (\<lambda>d. ''{}'') [[(''Name'', JStr ''svc-read'')], [], [(''ID'', JStr ''x'')]]
     = Inl (ACLPolicyFormatError ''{}'')
   \<and> check_policylinks (\<lambda>d. ''{}'') [[(''Name'', JStr ''svc-read'')], [(''ID'', JStr ''x'')]]
     = Inr True"
  using
    check_policylinks_spec [of "[[(''Name'', JStr ''svc-read'')], [], [(''ID'', JStr ''x'')]]"
      "\<lambda>d. ''{}''"]
    check_policylinks_spec [of "[[(''Name'', JStr ''svc-read'')], [(''ID'', JStr ''x'')]]"
      "\<lambda>d. ''{}''"]
  by (simp add: py_in_def)

lemma check_service_identities_all:
  "\<forall>p \<in> set identities. py_in ''ServiceName'' p \<Longrightarrow>
   check_service_identities py_str identities = Inr True"
  by (induction identities) simp_all

lemma check_service_identities_first:
  "\<forall>q \<in> set pre. py_in ''ServiceName'' q \<Longrightarrow> \<not> py_in ''ServiceName'' p \<Longrightarrow>
   check_service_identities py_str (pre @ p # post) = Inl (ACLPolicyFormatError (py_str p))"
  by (induction pre) simp_all

text \<open>
  C8. Validation of a list of service identities raises \<^verbatim>\<open>ACLPolicyFormatError\<close> if an
  element has no \<^verbatim>\<open>ServiceName\<close> key (with the representation of the first such element),
  and returns true otherwise, the empty list included.
\<close>

theorem check_service_identities_spec:
  "((\<exists>p \<in> set identities. \<not> py_in ''ServiceName'' p) \<longrightarrow>
      (\<exists>pre p post. identities = pre @ p # post
         \<and> (\<forall>q \<in> set pre. py_in ''ServiceName'' q)
         \<and> \<not> py_in ''ServiceName'' p
         \<and> check_service_identities py_str identities = Inl (ACLPolicyFormatError (py_str p))))
   \<and> (\<not> (\<exists>p \<in> set identities. \<not> py_in ''ServiceName'' p) \<longrightarrow>
      check_service_identities py_str identities = Inr True)
   \<and> check_service_identities py_str [] = Inr True"
proof (intro conjI impI)
  assume "\<exists>p \<in> set identities. \<not> py_in ''ServiceName'' p"
  then obtain pre p post where split: "identities = pre @ p # post"
      and bad: "\<not> py_in ''ServiceName'' p"
      and good: "\<forall>q \<in> set pre. \<not> \<not> py_in ''ServiceName'' q"
    using split_list_first_prop [of identities "\<lambda>p. \<not> py_in ''ServiceName'' p"]
    by blast
  from good have good': "\<forall>q \<in> set pre. py_in ''ServiceName'' q"
    by simp
  have "check_service_identities py_str identities = Inl (ACLPolicyFormatError (py_str p))"
    unfolding split using good' bad by (rule check_service_identities_first)
  with split good' bad
  show "\<exists>pre p post. identities = pre @ p # post
         \<and> (\<forall>q \<in> set pre. py_in ''ServiceName'' q)
         \<and> \<not> py_in ''ServiceName'' p
         \<and> check_service_identities py_str identities = Inl (ACLPolicyFormatError (py_str p))"
    by blast
next
  assume "\<not> (\<exists>p \<in> set identities. \<not> py_in ''ServiceName'' p)"
  then have "\<forall>p \<in> set identities. py_in ''ServiceName'' p"
    by simp
  then show "check_service_identities py_str identities = Inr True"
    by (rule check_service_identities_all)
next
  show "check_service_identities py_str [] = Inr True"
    by simp
qed

theorem check_service_identities_spec_witness:
  "check_service_identities (\<lambda>d. ''?'')
       [[(''ServiceName'', JStr ''web'')], [(''Datacenters'', JList [JStr ''dc1''])]]
     = Inl (ACLPolicyFormatError ''?'')
   \<and> check_service_identities (\<lambda>d. ''?'')
       [[(''ServiceName'', JStr ''web'')], [(''ServiceName'', JStr ''db''), (''Datacenters'', JList [])]]
     = Inr True"
  using
    check_service_identities_spec
      [of "[[(''ServiceName'', JStr ''web'')], [(''Datacenters'', JList [JStr ''dc1''])]]" "\<lambda>d. ''?''"]
    check_service_identities_spec
      [of "[[(''ServiceName'', JStr ''web'')],
            [(''ServiceName'', JStr ''db''), (''Datacenters'', JList [])]]" "\<lambda>d. ''?''"]
  by (simp add: py_in_def)

subsection \<open>Operations that return the new token id\<close>

lemma subscript_ID_missing:
  "\<not> py_in ''ID'' d \<Longrightarrow> subscript_ID (Inr (JDict d), s') = (Inl (KeyError ''ID''), s')"
proof -
  assume "\<not> py_in ''ID'' d"
  then have "map_of d ''ID'' = None"
    by (simp add: py_in_def map_of_eq_None_iff)
  then show ?thesis
    by (simp add: subscript_ID_def)
qed

text \<open>
  C10. \<^verbatim>\<open>bootstrap\<close>, \<^verbatim>\<open>create\<close>, \<^verbatim>\<open>clone\<close> and \<^verbatim>\<open>update\<close> subscript what
  \<^verbatim>\<open>_put_response_body\<close> returns with \<^verbatim>\<open>'ID'\<close>, whatever it is. When the call succeeds
  with a dictionary that has no \<^verbatim>\<open>ID\<close> key, each of them ends with \<^verbatim>\<open>KeyError\<close>, which is
  not an exception of \<^verbatim>\<open>consulate.exceptions\<close>.
\<close>

theorem token_id_key_error:
  assumes "\<not> py_in ''ID'' d"
  shows "(ep_put_response_body self [''bootstrap''] None None s = (Inr (JDict d), s') \<longrightarrow>
            bootstrap self s = (Inl (KeyError ''ID''), s'))
       \<and> (ep_put_response_body self [''create''] (Some [])
             (Some (ACLToken_dict \<lparr>token_id = None, token_name = Some name,
                token_type = acl_type, token_rules = rules\<rparr>)) s = (Inr (JDict d), s') \<longrightarrow>
            create self name acl_type rules s = (Inl (KeyError ''ID''), s'))
       \<and> (ep_put_response_body self [''clone'', acl_id] None None s = (Inr (JDict d), s') \<longrightarrow>
            clone self acl_id s = (Inl (KeyError ''ID''), s'))
       \<and> (ep_put_response_body self [''update''] (Some [])
             (Some (ACLToken_dict \<lparr>token_id = Some acl_id, token_name = Some name,
                token_type = acl_type, token_rules = rules\<rparr>)) s = (Inr (JDict d), s') \<longrightarrow>
            update self acl_id name acl_type rules s = (Inl (KeyError ''ID''), s'))
       \<and> \<not> module_exception (KeyError ''ID'')"
  using assms
  by (simp add: bootstrap_def create_def clone_def update_def subscript_ID_missing)

theorem token_id_key_error_witness:
  "bootstrap (recording (Inr (JDict [(''Name'', JStr ''n'')])) (Inl TypeError)) []
     = (Inl (KeyError ''ID''), [PUT [''bootstrap''] None])
   \<and> create (recording (Inr (JDict [(''Name'', JStr ''n'')])) (Inl TypeError))
       ''n'' ''client'' None []
     = (Inl (KeyError ''ID''),
        [PUT [''create''] (Some [(''Name'', JStr ''n''), (''Type'', JStr ''client'')])])
   \<and> clone (recording (Inr (JDict [(''Name'', JStr ''n'')])) (Inl TypeError)) ''t1'' []
     = (Inl (KeyError ''ID''), [PUT [''clone'', ''t1''] None])
   \<and> update (recording (Inr (JDict [(''Name'', JStr ''n'')])) (Inl TypeError))
       ''t1'' ''n'' ''client'' None []
     = (Inl (KeyError ''ID''),
        [PUT [''update'']
           (Some [(''ID'', JStr ''t1''), (''Name'', JStr ''n''), (''Type'', JStr ''client'')])])"
  using
    token_id_key_error [of "[(''Name'', JStr ''n'')]"
      "recording (Inr (JDict [(''Name'', JStr ''n'')])) (Inl TypeError)" "[]"
      "[PUT [''bootstrap''] None]"]
    token_id_key_error [of "[(''Name'', JStr ''n'')]"
      "recording (Inr (JDict [(''Name'', JStr ''n'')])) (Inl TypeError)" "[]"
      "[PUT [''create''] (Some [(''Name'', JStr ''n''), (''Type'', JStr ''client'')])]"
      "''n''" "''client''" None]
    token_id_key_error [of "[(''Name'', JStr ''n'')]"
      "recording (Inr (JDict [(''Name'', JStr ''n'')])) (Inl TypeError)" "[]"
      "[PUT [''clone'', ''t1''] None]" "''n''" "''client''" None "''t1''"]
    token_id_key_error [of "[(''Name'', JStr ''n'')]"
      "recording (Inr (JDict [(''Name'', JStr ''n'')])) (Inl TypeError)" "[]"
      "[PUT [''update'']
         (Some [(''ID'', JStr ''t1''), (''Name'', JStr ''n''), (''Type'', JStr ''client'')])]"
      "''n''" "''client''" None "''t1''"]
  by (simp add: recording_def py_in_def ACLToken_dict_def)

subsection \<open>The payload formatter\<close>

lemma dumps_no_structures: "json_dumps (JList (map JDict [])) = ''[]''"
  by simp

text \<open>
  C4, as the code has it. Without structures (\<^verbatim>\<open>None\<close>) the result is \<^verbatim>\<open>None\<close>. With a list
  of structures, the empty list included, the formatter calls the validator: an
  exception of the validator passes through; when it answers true the result is the JSON
  text of the structures, which is \<^verbatim>\<open>[]\<close> for the empty list; when it answers false the
  result is \<^verbatim>\<open>None\<close>.
\<close>

theorem create_json_format_spec:
  "create_json_format None check s = (Inr None, s)
   \<and> (check xs s = (Inl e, s') \<longrightarrow> create_json_format (Some xs) check s = (Inl e, s'))
   \<and> (check xs s = (Inr True, s') \<longrightarrow>
        create_json_format (Some xs) check s = (Inr (Some (json_dumps (JList (map JDict xs)))), s'))
   \<and> (check xs s = (Inr False, s') \<longrightarrow> create_json_format (Some xs) check s = (Inr None, s'))
   \<and> (check [] s = (Inr True, s') \<longrightarrow>
        create_json_format (Some []) check s = (Inr (Some ''[]''), s'))"
  by (simp add: create_json_format_def)

theorem create_json_format_spec_witness:
  "create_json_format (Some [[]]) (pure_call (check_policylinks (\<lambda>d. ''{}''))) (0::nat)
     = (Inl (ACLPolicyFormatError ''{}''), 0)
   \<and> create_json_format (Some [[(''ID'', JStr ''a'')]]) (pure_call (check_policylinks (\<lambda>d. ''{}'')))
       (0::nat)
     = (Inr (Some (json_dumps (JList [JDict [(''ID'', JStr ''a'')]]))), 0)
   \<and> create_json_format (Some [[(''ID'', JStr ''a'')]]) (\<lambda>xs n. (Inr False, Suc n)) (0::nat)
     = (Inr None, 1)
   \<and> create_json_format (Some []) (pure_call (check_service_identities (\<lambda>d. ''{}''))) (0::nat)
     = (Inr (Some ''[]''), 0)"
  using
    create_json_format_spec [of "pure_call (check_policylinks (\<lambda>d. ''{}''))" "0::nat"
      "[[]]" "ACLPolicyFormatError ''{}''" 0]
    create_json_format_spec [of "pure_call (check_policylinks (\<lambda>d. ''{}''))" "0::nat"
      "[[(''ID'', JStr ''a'')]]" "TypeError" 0]
    create_json_format_spec [of "\<lambda>xs n. (Inr False, Suc n)" "0::nat"
      "[[(''ID'', JStr ''a'')]]" "TypeError" 1]
    create_json_format_spec [of "pure_call (check_service_identities (\<lambda>d. ''{}''))" "0::nat"
      "[]" "TypeError" 0]
  by (simp add: pure_call_def py_in_def)

text \<open>
  C4 as the spec words it (an empty list gives an empty or absent result) fails at the
  empty list: the validator runs, and the result is the two characters \<^verbatim>\<open>[]\<close>, neither
  \<^verbatim>\<open>None\<close> nor the empty string.
\<close>

theorem create_json_format_empty_list:
  "create_json_format (Some []) (pure_call (check_policylinks (\<lambda>d. ''{}''))) (0::nat)
     = (Inr (Some ''[]''), 0)
   \<and> create_json_format (Some []) (\<lambda>xs n. (Inr True, Suc n)) (0::nat) = (Inr (Some ''[]''), 1)
   \<and> fst (create_json_format (Some []) (pure_call (check_policylinks (\<lambda>d. ''{}''))) (0::nat))
       \<notin> {Inr None, Inr (Some '''')}"
  by (simp add: create_json_format_def pure_call_def)

text \<open>
  C9. Without structures the formatter returns \<^verbatim>\<open>None\<close> and leaves the state of the world
  as it was, whatever the validator would answer, raise or change: it does not call it.
\<close>

theorem create_json_format_absent:
  "create_json_format None check s = (Inr None, s)"
  by (simp add: create_json_format_def)

subsection \<open>Round trip of policy links\<close>




subsection \<open>Request models\<close>

lemma py_in_emit: "py_in k (emit key v) = (k = key \<and> v \<noteq> None)"
  by (cases v) (auto simp: py_in_def)

lemma py_in_append: "py_in k (d @ d') = (py_in k d \<or> py_in k d')"
  by (auto simp: py_in_def)

lemma py_in_single: "py_in k [(key, v)] = (k = key)"
  by (auto simp: py_in_def)

text \<open>
  C6. The mapping of a request model has a key exactly for the fields that are set: for
  \<^verbatim>\<open>ACLPolicy\<close> the key \<^verbatim>\<open>Name\<close> and, of the five optional fields, the keys of those that
  are not \<^verbatim>\<open>None\<close>; for the token model the key \<^verbatim>\<open>Type\<close> and the keys of its optional
  fields that are not \<^verbatim>\<open>None\<close>. \<^verbatim>\<open>ACLPolicy(name="p")\<close> gives exactly the one pair of \<^verbatim>\<open>Name\<close>
  and \<^verbatim>\<open>p\<close>, and that is the payload \<^verbatim>\<open>create_policy\<close> sends when called with the name only.
\<close>

theorem request_models_omit_unset:
  "py_in k (ACLPolicy_dict m) =
     (k = ''Name''
      \<or> k = ''Datacenters'' \<and> policy_datacenters m \<noteq> None
      \<or> k = ''Description'' \<and> policy_description m \<noteq> None
      \<or> k = ''Rules'' \<and> policy_rules m \<noteq> None
      \<or> k = ''Policies'' \<and> policy_policies m \<noteq> None
      \<or> k = ''ServiceIdentities'' \<and> policy_service_identities m \<noteq> None)
   \<and> py_in k (ACLToken_dict t) =
     (k = ''ID'' \<and> token_id t \<noteq> None
      \<or> k = ''Name'' \<and> token_name t \<noteq> None
      \<or> k = ''Type''
      \<or> k = ''Rules'' \<and> token_rules t \<noteq> None)
   \<and> ACLPolicy_dict \<lparr>policy_name = ''p'', policy_datacenters = None, policy_description = None,
        policy_rules = None, policy_policies = None, policy_service_identities = None\<rparr>
       = [(''Name'', JStr ''p'')]
   \<and> create_policy self ''p'' None None None s
       = ep_put_response_body self [''policy''] (Some []) (Some [(''Name'', JStr ''p'')]) s"
proof (intro conjI)
  show "py_in k (ACLPolicy_dict m) =
     (k = ''Name''
      \<or> k = ''Datacenters'' \<and> policy_datacenters m \<noteq> None
      \<or> k = ''Description'' \<and> policy_description m \<noteq> None
      \<or> k = ''Rules'' \<and> policy_rules m \<noteq> None
      \<or> k = ''Policies'' \<and> policy_policies m \<noteq> None
      \<or> k = ''ServiceIdentities'' \<and> policy_service_identities m \<noteq> None)"
    unfolding ACLPolicy_dict_def py_in_append py_in_emit py_in_single by simp
  show "py_in k (ACLToken_dict t) =
     (k = ''ID'' \<and> token_id t \<noteq> None
      \<or> k = ''Name'' \<and> token_name t \<noteq> None
      \<or> k = ''Type''
      \<or> k = ''Rules'' \<and> token_rules t \<noteq> None)"
    unfolding ACLToken_dict_def py_in_append py_in_emit py_in_single by simp
  show "ACLPolicy_dict \<lparr>policy_name = ''p'', policy_datacenters = None, policy_description = None,
        policy_rules = None, policy_policies = None, policy_service_identities = None\<rparr>
       = [(''Name'', JStr ''p'')]"
    by (simp add: ACLPolicy_dict_def)
  show "create_policy self ''p'' None None None s
       = ep_put_response_body self [''policy''] (Some []) (Some [(''Name'', JStr ''p'')]) s"
    by (simp add: create_policy_def ACLPolicy_dict_def)
qed

subsection \<open>Creating a role\<close>

text \<open>
  C7, at \<^verbatim>\<open>create_role(name="bad", policies=[{}])\<close>. The validator rejects the list, but
  \<^verbatim>\<open>create_role\<close> does not call it: the PUT on \<^verbatim>\<open>role\<close> goes out with the empty policy link in
  its payload, and the operation returns what the transport answers.
\<close>

theorem create_role_unvalidated:
  "check_policylinks (\<lambda>d. ''{}'') [[]] = Inl (ACLPolicyFormatError ''{}'')
   \<and> create_role (recording (Inr (JDict [(''ID'', JStr ''r1'')])) (Inl TypeError))
       ''bad'' None (Some [[]]) None []
     = (Inr (JDict [(''ID'', JStr ''r1'')]),
        [PUT [''role''] (Some [(''Name'', JStr ''bad''), (''Policies'', JList [JDict []])])])"
  by (simp add: create_role_def recording_def ACLPolicy_dict_def py_in_def)

end
